theory Spec2Isabelle
  imports Complex_Main "HOL-Library.Sublist"
begin

section \<open>Prompt construction\<close>

text \<open>
  The notebook \<^verbatim>\<open>notebooks/peft_fine_tune.ipynb\<close> builds prompts in three places.
  Python strings are modelled as \<^typ>\<open>string\<close>; the newline escape \<^verbatim>\<open>\n\<close> is the
  character \<open>CHR 0x0A\<close>.

  Training time, cell 4:
  \<^verbatim>\<open>
  def tokenize_function(example):
      start_prompt = 'Summarize the following conversation.\n\n'
      end_prompt = '\n\nSummary: '
      prompt = [start_prompt + dialogue + end_prompt for dialogue in example["dialogue"]]
  \<close>
\<close>

definition start_prompt :: string where
  "start_prompt = ''Summarize the following conversation.'' @ [CHR 0x0A, CHR 0x0A]"

definition end_prompt :: string where
  "end_prompt = [CHR 0x0A, CHR 0x0A] @ ''Summary: ''"

text \<open>The element expression of the list comprehension, for one dialogue.\<close>

definition build_prompt :: "string \<Rightarrow> string" where
  "build_prompt d = start_prompt @ d @ end_prompt"

text \<open>The list \<^verbatim>\<open>prompt\<close> that \<^verbatim>\<open>tokenize_function\<close> hands to the tokenizer.\<close>

definition tokenize_function_prompt :: "string list \<Rightarrow> string list" where
  "tokenize_function_prompt dialogues = map build_prompt dialogues"

text \<open>
  Evaluation time, the qualitative cell and the body of the quantitative loop both use
  the triple-quoted f-string
  \<^verbatim>\<open>
  prompt = f"""
  Summarize the following conversation.

  {dialogue}

  Summary: """
  \<close>
  whose text starts right after the opening quotes, that is with the line break that
  follows them.
\<close>

definition qualitative_prompt :: "string \<Rightarrow> string" where
  "qualitative_prompt d =
     [CHR 0x0A] @ ''Summarize the following conversation.'' @ [CHR 0x0A]
     @ [CHR 0x0A] @ d @ [CHR 0x0A] @ [CHR 0x0A] @ ''Summary: ''"

definition quantitative_prompt :: "string \<Rightarrow> string" where
  "quantitative_prompt d =
     [CHR 0x0A] @ ''Summarize the following conversation.'' @ [CHR 0x0A]
     @ [CHR 0x0A] @ d @ [CHR 0x0A] @ [CHR 0x0A] @ ''Summary: ''"


section \<open>Errors and Python list indexing\<close>

text \<open>
  The exceptions the modelled cells can raise. \<open>NameError\<close>: a name that is bound
  nowhere is read. \<open>IndexError\<close>: a list index out of range. \<open>ValueError\<close>: numpy
  cannot broadcast two arrays to a common shape. \<open>LengthMismatch\<close>: the failure the
  metric capability reports for predictions and references of different lengths.
\<close>

datatype error = NameError | IndexError | ValueError | LengthMismatch

text \<open>
  Reading \<^verbatim>\<open>xs[i]\<close> from a Python list of length \<open>n\<close>: the positions
  \<open>0 .. n - 1\<close> are read directly, \<open>- n .. - 1\<close> are read from the back, and
  every other index raises.
\<close>

definition py_index :: "'a list \<Rightarrow> int \<Rightarrow> error + 'a" where
  "py_index xs i =
     (if 0 \<le> i \<and> i < int (length xs) then Inr (xs ! nat i)
      else if i < 0 \<and> - int (length xs) \<le> i then Inr (xs ! nat (int (length xs) + i))
      else Inl IndexError)"


section \<open>The quantitative evaluation cell\<close>

text \<open>The rows of the dataset, with the features \<^verbatim>\<open>['id', 'dialogue', 'summary', 'topic']\<close>.\<close>

record DialogueRecord =
  record_id :: string
  dialogue :: string
  summary :: string
  topic :: string

datatype model_variant = Original | Instruct | Peft

text \<open>
  What the loop appends to, the log of the calls made to the external generation
  capability (in call order), and the variable the loop body assigns the read human
  summary to. Notebook variables are globals of the kernel, so they keep their values
  when a cell stops with an exception.
\<close>

record summaries =
  original_model_summaries :: "string list"
  instruct_model_summaries :: "string list"
  peft_model_summaries :: "string list"
  generate_calls :: "(model_variant \<times> string) list"
  human_baseline_text_output :: "string option"

definition no_summaries :: summaries where
  "no_summaries =
     \<lparr>original_model_summaries = [], instruct_model_summaries = [],
      peft_model_summaries = [], generate_calls = [], human_baseline_text_output = None\<rparr>"

text \<open>
  One iteration of
  \<^verbatim>\<open>
  for dialogue in tqdm(dialogues):
      prompt = f"""..."""
      input_ids = tokenizer(prompt, return_tensors="pt").input_ids
      human_baseline_text_output = human_baseline_summaries[idx]
      original_model_outputs = original_model.generate(input_ids=input_ids, ...)
      original_model_text_output = tokenizer.decode(original_model_outputs[0], ...)
      ... (the same for instruct_model and peft_model)
      original_model_summaries.append(original_model_text_output)
      instruct_model_summaries.append(instruct_model_text_output)
      peft_model_summaries.append(peft_model_text_output)
  \<close>
  The external model is the parameter \<open>generate\<close>: generating from the tokenized
  prompt and decoding, for one variant. The tokenizer call that precedes the read of
  \<^verbatim>\<open>human_baseline_summaries[idx]\<close> changes nothing in the notebook's state and is
  folded into \<open>generate\<close>. The name \<^verbatim>\<open>idx\<close> is bound by no cell of the
  notebook; \<open>idx\<close> is \<open>None\<close> when the kernel has no binding for it and \<open>Some i\<close>
  when an earlier session left one.
\<close>

definition loop_body ::
  "(model_variant \<Rightarrow> string \<Rightarrow> string) \<Rightarrow> string list \<Rightarrow> int option
     \<Rightarrow> summaries \<Rightarrow> string \<Rightarrow> error + summaries" where
  "loop_body generate human_baseline_summaries idx st d =
     (let prompt = quantitative_prompt d in
      case idx of
        None \<Rightarrow> Inl NameError
      | Some i \<Rightarrow>
          (case py_index human_baseline_summaries i of
             Inl e \<Rightarrow> Inl e
           | Inr h \<Rightarrow>
               (let original_model_text_output = generate Original prompt;
                    instruct_model_text_output = generate Instruct prompt;
                    peft_model_text_output = generate Peft prompt
                in Inr (st\<lparr>
                     original_model_summaries :=
                       original_model_summaries st @ [original_model_text_output],
                     instruct_model_summaries :=
                       instruct_model_summaries st @ [instruct_model_text_output],
                     peft_model_summaries :=
                       peft_model_summaries st @ [peft_model_text_output],
                     generate_calls :=
                       generate_calls st @ [(Original, prompt), (Instruct, prompt), (Peft, prompt)],
                     human_baseline_text_output := Some h\<rparr>))))"

text \<open>The loop: it stops at the first exception, with the state reached so far.\<close>

fun for_loop ::
  "(model_variant \<Rightarrow> string \<Rightarrow> string) \<Rightarrow> string list \<Rightarrow> int option
     \<Rightarrow> summaries \<Rightarrow> string list \<Rightarrow> summaries \<times> error option" where
  "for_loop generate hs idx st [] = (st, None)"
| "for_loop generate hs idx st (d # ds) =
     (case loop_body generate hs idx st d of
        Inl e \<Rightarrow> (st, Some e)
      | Inr st' \<Rightarrow> for_loop generate hs idx st' ds)"

text \<open>
  The cell up to the loop's end:
  \<^verbatim>\<open>
  dialogues = dataset['test'][0:10]['dialogue']
  human_baseline_summaries = dataset['test'][0:10]['summary']
  original_model_summaries = []; instruct_model_summaries = []; peft_model_summaries = []
  \<close>
\<close>

definition dialogues_of :: "DialogueRecord list \<Rightarrow> string list" where
  "dialogues_of test = map dialogue (take 10 test)"

definition human_baseline_summaries_of :: "DialogueRecord list \<Rightarrow> string list" where
  "human_baseline_summaries_of test = map summary (take 10 test)"

definition quantitative_evaluation ::
  "(model_variant \<Rightarrow> string \<Rightarrow> string) \<Rightarrow> int option \<Rightarrow> DialogueRecord list
     \<Rightarrow> summaries \<times> error option" where
  "quantitative_evaluation generate idx test =
     for_loop generate (human_baseline_summaries_of test) idx no_summaries (dialogues_of test)"

text \<open>
  \<^verbatim>\<open>zipped_summaries = list(zip(human_baseline_summaries, original_model_summaries,
  instruct_model_summaries, peft_model_summaries))\<close>
\<close>

definition zipped_summaries ::
  "string list \<Rightarrow> summaries \<Rightarrow> (string \<times> string \<times> string \<times> string) list" where
  "zipped_summaries hs st =
     zip hs (zip (original_model_summaries st)
       (zip (instruct_model_summaries st) (peft_model_summaries st)))"


section \<open>The metric scorer\<close>

text \<open>
  Modelled from the spec: the metric capability behind \<^verbatim>\<open>rouge.compute\<close> is a
  third-party library, absent from the source, which only calls it. The definitions
  from \<open>ngrams\<close> to \<open>rouge_compute\<close> follow the spec's section 4.3: per example an
  F-measure over the 1-gram and the 2-gram multiset overlap and over the longest common
  subsequence of the token sequences, the summary-level one computed on the whole output
  as one sequence; the arithmetic mean over the batch; \<open>LengthMismatch\<close> when the two
  sequences differ in length. The spec fixes neither the tokenizer nor the stemmer, which
  are the parameters \<open>tok\<close> and \<open>stem\<close>; scores are exact reals, so the rounding of
  \<^verbatim>\<open>np.float64\<close> is not modelled. An F-measure with an empty candidate or an empty
  reference is 0.
\<close>

fun ngrams :: "nat \<Rightarrow> 'a list \<Rightarrow> 'a list list" where
  "ngrams n [] = []"
| "ngrams n (x # xs) =
     (if 0 < n \<and> n \<le> length (x # xs) then take n (x # xs) # ngrams n xs else [])"

text \<open>The size of the intersection of two multisets, each given as a list.\<close>

fun overlap_count :: "'a list \<Rightarrow> 'a list \<Rightarrow> nat" where
  "overlap_count [] ys = 0"
| "overlap_count (x # xs) ys =
     (if x \<in> set ys then Suc (overlap_count xs (remove1 x ys)) else overlap_count xs ys)"

fun lcs_length :: "'a list \<Rightarrow> 'a list \<Rightarrow> nat" where
  "lcs_length [] ys = 0"
| "lcs_length (x # xs) [] = 0"
| "lcs_length (x # xs) (y # ys) =
     (if x = y then Suc (lcs_length xs ys)
      else max (lcs_length (x # xs) ys) (lcs_length xs (y # ys)))"

definition fmeasure :: "nat \<Rightarrow> nat \<Rightarrow> nat \<Rightarrow> real" where
  "fmeasure matches candidate_total reference_total =
     (if candidate_total = 0 \<or> reference_total = 0 then 0
      else let precision = real matches / real candidate_total;
               recall = real matches / real reference_total
           in if precision + recall = 0 then 0
              else 2 * precision * recall / (precision + recall))"

definition ngram_overlap :: "nat \<Rightarrow> 'a list \<Rightarrow> 'a list \<Rightarrow> real" where
  "ngram_overlap n candidate reference =
     fmeasure (overlap_count (ngrams n candidate) (ngrams n reference))
       (length (ngrams n candidate)) (length (ngrams n reference))"

definition lcs_overlap :: "'a list \<Rightarrow> 'a list \<Rightarrow> real" where
  "lcs_overlap candidate reference =
     fmeasure (lcs_length candidate reference) (length candidate) (length reference)"

definition summary_lcs_overlap :: "'a list \<Rightarrow> 'a list \<Rightarrow> real" where
  "summary_lcs_overlap candidate reference =
     fmeasure (lcs_length candidate reference) (length candidate) (length reference)"

definition mean :: "real list \<Rightarrow> real" where
  "mean xs = (if xs = [] then 0 else sum_list xs / real (length xs))"

definition normalise :: "(string \<Rightarrow> string list) \<Rightarrow> (string \<Rightarrow> string) \<Rightarrow> bool \<Rightarrow> string \<Rightarrow> string list" where
  "normalise tok stem use_stemmer s = (if use_stemmer then map stem (tok s) else tok s)"

text \<open>
  A score set is the Python dict the metric returns, with the keys in insertion order:
  \<^verbatim>\<open>{'rouge1': ..., 'rouge2': ..., 'rougeL': ..., 'rougeLsum': ...}\<close>. An association
  list keeps the order, which the comparison below depends on.
\<close>

type_synonym ScoreSet = "(string \<times> real) list"

text \<open>
  Modelled from the spec: the body of \<^verbatim>\<open>rouge.compute\<close>, which the source calls and
  does not contain, after the contract of section 4.3.
\<close>

definition rouge_compute ::
  "(string \<Rightarrow> string list) \<Rightarrow> (string \<Rightarrow> string) \<Rightarrow> bool
     \<Rightarrow> string list \<Rightarrow> string list \<Rightarrow> error + ScoreSet" where
  "rouge_compute tok stem use_stemmer predictions references =
     (if length predictions \<noteq> length references then Inl LengthMismatch
      else
        let ps = map (normalise tok stem use_stemmer) predictions;
            rs = map (normalise tok stem use_stemmer) references
        in Inr [(''rouge1'', mean (map2 (ngram_overlap 1) ps rs)),
                (''rouge2'', mean (map2 (ngram_overlap 2) ps rs)),
                (''rougeL'', mean (map2 lcs_overlap ps rs)),
                (''rougeLsum'', mean (map2 summary_lcs_overlap ps rs))])"

text \<open>
  The call the notebook makes, six times with the same shape:
  \<^verbatim>\<open>
  rouge.compute(
      predictions=original_model_summaries,
      references=human_baseline_summaries[0:len(original_model_summaries)],
      use_aggregator=True,
      use_stemmer=True,
  )
  \<close>
  The slice \<^verbatim>\<open>[0:len(predictions)]\<close> is \<open>take\<close>. Every call of the notebook passes
  \<^verbatim>\<open>use_stemmer=True\<close>.
\<close>

definition score ::
  "(string \<Rightarrow> string list) \<Rightarrow> (string \<Rightarrow> string) \<Rightarrow> bool
     \<Rightarrow> string list \<Rightarrow> string list \<Rightarrow> error + ScoreSet" where
  "score tok stem use_stemmer predictions references =
     rouge_compute tok stem use_stemmer predictions (take (length predictions) references)"

text \<open>
  A tokenizer and a stemmer to run the scorer on concrete inputs: splitting at spaces,
  and dropping one final \<open>s\<close>.
\<close>

fun split_spaces :: "string \<Rightarrow> string \<Rightarrow> string list" where
  "split_spaces acc [] = (if acc = [] then [] else [rev acc])"
| "split_spaces acc (c # cs) =
     (if c = CHR '' '' then (if acc = [] then split_spaces [] cs else rev acc # split_spaces [] cs)
      else split_spaces (c # acc) cs)"

definition words_tok :: "string \<Rightarrow> string list" where
  "words_tok s = split_spaces [] s"

definition plural_stem :: "string \<Rightarrow> string" where
  "plural_stem w = (if w \<noteq> [] \<and> last w = CHR ''s'' then butlast w else w)"


section \<open>The comparator\<close>

text \<open>
  \<^verbatim>\<open>
  improvement = (np.array(list(peft_model_results.values()))
                 - np.array(list(original_model_results.values())))
  for key, value in zip(peft_model_results.keys(), improvement):
      print(f'{key}: {value*100:.2f}%')
  \<close>
  Subtracting two one-dimensional numpy arrays: element by element when the lengths
  agree; an array of length 1 is broadcast along the other; otherwise numpy raises
  \<open>ValueError\<close>.
\<close>

definition np_subtract :: "real list \<Rightarrow> real list \<Rightarrow> error + real list" where
  "np_subtract xs ys =
     (if length xs = length ys then Inr (map2 (-) xs ys)
      else if length ys = 1 then Inr (map (\<lambda>x. x - hd ys) xs)
      else if length xs = 1 then Inr (map (\<lambda>y. hd xs - y) ys)
      else Inl ValueError)"

definition improvement :: "ScoreSet \<Rightarrow> ScoreSet \<Rightarrow> error + real list" where
  "improvement a b = np_subtract (map snd a) (map snd b)"

text \<open>
  The pairs the loop prints, each value as the percentage \<^verbatim>\<open>value*100\<close>; the
  formatting to two decimals is not modelled.
\<close>

definition compare :: "ScoreSet \<Rightarrow> ScoreSet \<Rightarrow> error + ScoreSet" where
  "compare a b =
     (case improvement a b of
        Inl e \<Rightarrow> Inl e
      | Inr imp \<Rightarrow> Inr (map (\<lambda>(key, v). (key, v * 100)) (zip (map fst a) imp)))"


section \<open>Recorded outputs and sample inputs\<close>

text \<open>
  The score sets the notebook printed for the ten-row batch (cell 25), digit for digit.
\<close>

definition recorded_original_model_results :: ScoreSet where
  "recorded_original_model_results =
     [(''rouge1'', 0.2566893144878768), (''rouge2'', 0.1294486893343586),
      (''rougeL'', 0.22765512517993816), (''rougeLsum'', 0.23187734563950757)]"

definition recorded_instruct_model_results :: ScoreSet where
  "recorded_instruct_model_results =
     [(''rouge1'', 0.4015906463624618), (''rouge2'', 0.17568542724181807),
      (''rougeL'', 0.2874569966059625), (''rougeLsum'', 0.2886327613084294)]"

text \<open>The list one model variant's summaries are appended to.\<close>

definition summaries_of :: "model_variant \<Rightarrow> summaries \<Rightarrow> string list" where
  "summaries_of v st =
     (case v of
        Original \<Rightarrow> original_model_summaries st
      | Instruct \<Rightarrow> instruct_model_summaries st
      | Peft \<Rightarrow> peft_model_summaries st)"

text \<open>
  Sample inputs: two score sets over the four metric names, a third with the keys of the
  first in another insertion order, a two-row test split and a generation capability
  that tags the dialogue's first characters with the variant.
\<close>

definition sample_scores_a :: ScoreSet where
  "sample_scores_a =
     [(''rouge1'', 1/2), (''rouge2'', 1/5), (''rougeL'', 2/5), (''rougeLsum'', 2/5)]"

definition sample_scores_b :: ScoreSet where
  "sample_scores_b =
     [(''rouge1'', 3/10), (''rouge2'', 1/10), (''rougeL'', 3/10), (''rougeLsum'', 3/10)]"

definition sample_scores_b_reordered :: ScoreSet where
  "sample_scores_b_reordered =
     [(''rouge2'', 1/10), (''rouge1'', 3/10), (''rougeL'', 3/10), (''rougeLsum'', 3/10)]"

definition sample_test :: "DialogueRecord list" where
  "sample_test =
     [\<lparr>record_id = ''test_0'', dialogue = ''A: Hi. B: Hello.'', summary = ''A greets B.'',
       topic = ''greeting''\<rparr>,
      \<lparr>record_id = ''test_1'', dialogue = ''A: Bye. B: See you.'', summary = ''A leaves B.'',
       topic = ''farewell''\<rparr>]"

definition sample_generate :: "model_variant \<Rightarrow> string \<Rightarrow> string" where
  "sample_generate v prompt =
     (case v of Original \<Rightarrow> ''O:'' | Instruct \<Rightarrow> ''I:'' | Peft \<Rightarrow> ''P:'') @ take 7 (drop 40 prompt)"


section \<open>Properties of the prompt builders\<close>

lemma length_build_prompt: "length (build_prompt d) = length d + 50"
  by (simp add: build_prompt_def start_prompt_def end_prompt_def)

text \<open>
  C1. The claim asks that every prompt is exactly
  \<open>start_prompt + d + end_prompt\<close> with no extra leading character, byte-identical
  between \<^verbatim>\<open>tokenize_function\<close> and the evaluation cells. On the code the two
  evaluation prompts agree with each other, but each is the training-time prompt
  preceded by one newline character, so neither equals it for any dialogue.
\<close>

theorem evaluation_prompt_leading_newline:
  "qualitative_prompt d = CHR 0x0A # build_prompt d
   \<and> quantitative_prompt d = CHR 0x0A # build_prompt d
   \<and> quantitative_prompt d = qualitative_prompt d
   \<and> quantitative_prompt d \<noteq> build_prompt d
   \<and> qualitative_prompt d \<noteq> build_prompt d
   \<and> hd (quantitative_prompt ''Hi'') = CHR 0x0A
   \<and> hd (build_prompt ''Hi'') = CHR ''S''"
proof -
  have q1: "qualitative_prompt d = CHR 0x0A # build_prompt d"
    by (simp add: qualitative_prompt_def build_prompt_def start_prompt_def end_prompt_def)
  have q2: "quantitative_prompt d = CHR 0x0A # build_prompt d"
    by (simp add: quantitative_prompt_def build_prompt_def start_prompt_def end_prompt_def)
  have ne: "CHR 0x0A # build_prompt d \<noteq> build_prompt d"
    by simp
  have hi: "hd (quantitative_prompt ''Hi'') = CHR 0x0A \<and> hd (build_prompt ''Hi'') = CHR ''S''"
    by (simp add: quantitative_prompt_def build_prompt_def start_prompt_def)
  from q1 q2 ne hi show ?thesis by simp
qed

text \<open>
  C9. For every string \<open>d\<close>, the empty one included, \<open>build_prompt d\<close> is a
  string (the model has no failure branch, as string concatenation has none) that
  contains \<open>d\<close> as a contiguous substring, between the fixed prefix and the fixed
  suffix, and it is at least as long as \<open>d\<close>.
\<close>

theorem build_prompt_contains_dialogue:
  "sublist d (build_prompt d)
   \<and> build_prompt d = start_prompt @ d @ end_prompt
   \<and> length d \<le> length (build_prompt d)
   \<and> sublist [] (build_prompt [])"
proof -
  have "sublist d (start_prompt @ d @ end_prompt)"
    by (rule sublist_appendI)
  then show ?thesis
    by (simp add: build_prompt_def)
qed

section \<open>Lemmas about the scorer, the comparator and the loop\<close>

lemma overlap_count_self: "overlap_count xs xs = length xs"
  by (induction xs) simp_all

lemma lcs_length_self: "lcs_length xs xs = length xs"
  by (induction xs) simp_all

lemma fmeasure_full: "0 < n \<Longrightarrow> fmeasure n n n = 1"
  by (simp add: fmeasure_def Let_def)

lemma fmeasure_no_match: "fmeasure 0 c r = 0"
  by (simp add: fmeasure_def Let_def)

lemma length_ngrams: "length (ngrams n xs) = (if 0 < n then Suc (length xs) - n else 0)"
  by (induction xs) auto

lemma ngrams_member: "g \<in> set (ngrams n xs) \<Longrightarrow> g \<noteq> [] \<and> set g \<subseteq> set xs"
proof (induction xs)
  case Nil
  then show ?case by simp
next
  case (Cons x xs)
  show ?case
  proof (cases "g = take n (x # xs)")
    case True
    with Cons.prems show ?thesis
      by (auto split: if_splits dest: in_set_takeD)
  next
    case False
    with Cons.prems have "g \<in> set (ngrams n xs)"
      by (auto split: if_splits)
    with Cons.IH show ?thesis by auto
  qed
qed

lemma overlap_count_disjoint: "set xs \<inter> set ys = {} \<Longrightarrow> overlap_count xs ys = 0"
  by (induction xs arbitrary: ys) auto

lemma lcs_length_disjoint: "set xs \<inter> set ys = {} \<Longrightarrow> lcs_length xs ys = 0"
  by (induction xs ys rule: lcs_length.induct) auto

lemma ngrams_disjoint:
  assumes "set xs \<inter> set ys = {}"
  shows "set (ngrams n xs) \<inter> set (ngrams n ys) = {}"
proof (rule ccontr)
  assume "set (ngrams n xs) \<inter> set (ngrams n ys) \<noteq> {}"
  then obtain g where gx: "g \<in> set (ngrams n xs)" and gy: "g \<in> set (ngrams n ys)"
    by auto
  from ngrams_member [OF gx] ngrams_member [OF gy]
  have "g \<noteq> []" and "set g \<subseteq> set xs" and "set g \<subseteq> set ys"
    by simp_all
  then obtain t where "t \<in> set g" "t \<in> set xs" "t \<in> set ys"
    by (cases g) auto
  with assms show False by auto
qed

lemma mean_constant: "xs \<noteq> [] \<Longrightarrow> \<forall>x\<in>set xs. x = c \<Longrightarrow> mean xs = c"
proof -
  assume ne: "xs \<noteq> []" and all: "\<forall>x\<in>set xs. x = c"
  have "sum_list xs = real (length xs) * c"
    using all by (induction xs) (simp_all add: algebra_simps)
  with ne show ?thesis
    by (simp add: mean_def)
qed

lemma map2_same: "map2 f xs xs = map (\<lambda>x. f x x) xs"
  by (induction xs) simp_all

lemma ngram_overlap_self:
  "0 < n \<Longrightarrow> n \<le> length t \<Longrightarrow> ngram_overlap n t t = 1"
  by (simp add: ngram_overlap_def overlap_count_self length_ngrams fmeasure_full)

lemma lcs_overlap_self: "t \<noteq> [] \<Longrightarrow> lcs_overlap t t = 1"
  by (simp add: lcs_overlap_def lcs_length_self fmeasure_full)

lemma summary_lcs_overlap_self: "t \<noteq> [] \<Longrightarrow> summary_lcs_overlap t t = 1"
  by (simp add: summary_lcs_overlap_def lcs_length_self fmeasure_full)

lemma ngram_overlap_disjoint: "set c \<inter> set r = {} \<Longrightarrow> ngram_overlap n c r = 0"
  by (simp add: ngram_overlap_def overlap_count_disjoint ngrams_disjoint fmeasure_no_match)

lemma lcs_overlap_disjoint: "set c \<inter> set r = {} \<Longrightarrow> lcs_overlap c r = 0"
  by (simp add: lcs_overlap_def lcs_length_disjoint fmeasure_no_match)

lemma summary_lcs_overlap_disjoint: "set c \<inter> set r = {} \<Longrightarrow> summary_lcs_overlap c r = 0"
  by (simp add: summary_lcs_overlap_def lcs_length_disjoint fmeasure_no_match)

lemma score_identical:
  assumes ne: "p \<noteq> []"
    and two: "\<forall>s\<in>set p. 2 \<le> length (normalise tok stem us s)"
  shows "score tok stem us p p =
    Inr [(''rouge1'', 1), (''rouge2'', 1), (''rougeL'', 1), (''rougeLsum'', 1)]"
proof -
  let ?ts = "map (normalise tok stem us) p"
  have ts_ne: "?ts \<noteq> []" using ne by simp
  have len: "\<forall>t\<in>set ?ts. 2 \<le> length t" using two by simp
  have m1: "mean (map2 (ngram_overlap 1) ?ts ?ts) = 1"
    unfolding map2_same using ts_ne len by (intro mean_constant) (auto simp: ngram_overlap_self)
  have m2: "mean (map2 (ngram_overlap 2) ?ts ?ts) = 1"
    unfolding map2_same using ts_ne len by (intro mean_constant) (auto simp: ngram_overlap_self)
  have m3: "mean (map2 lcs_overlap ?ts ?ts) = 1"
    unfolding map2_same using ts_ne len by (intro mean_constant) (auto intro!: lcs_overlap_self)
  have m4: "mean (map2 summary_lcs_overlap ?ts ?ts) = 1"
    unfolding map2_same using ts_ne len by (intro mean_constant) (auto intro!: summary_lcs_overlap_self)
  show ?thesis
    using m1 m2 m3 m4 by (simp add: score_def rouge_compute_def Let_def)
qed

lemma map2_constant:
  assumes "length xs = length ys"
    and "\<forall>i<length xs. f (xs ! i) (ys ! i) = c"
  shows "\<forall>v\<in>set (map2 f xs ys). v = c"
  using assms by (auto simp: set_zip)

lemma score_disjoint:
  assumes ne: "p \<noteq> []"
    and len: "length p = length r"
    and dis: "\<forall>i<length p. set (normalise tok stem us (p ! i)) \<inter> set (normalise tok stem us (r ! i)) = {}"
  shows "score tok stem us p r =
    Inr [(''rouge1'', 0), (''rouge2'', 0), (''rougeL'', 0), (''rougeLsum'', 0)]"
proof -
  let ?ps = "map (normalise tok stem us) p"
  let ?rs = "map (normalise tok stem us) r"
  have l: "length ?ps = length ?rs" using len by simp
  have d: "\<forall>i<length ?ps. set (?ps ! i) \<inter> set (?rs ! i) = {}"
    using dis len by simp
  have zne: "\<And>f. map2 f ?ps ?rs \<noteq> []"
    using ne len by (cases p; cases r) simp_all
  have m1: "mean (map2 (ngram_overlap 1) ?ps ?rs) = 0"
    by (rule mean_constant [OF zne]) (rule map2_constant [OF l], use d in \<open>simp add: ngram_overlap_disjoint\<close>)
  have m2: "mean (map2 (ngram_overlap 2) ?ps ?rs) = 0"
    by (rule mean_constant [OF zne]) (rule map2_constant [OF l], use d in \<open>simp add: ngram_overlap_disjoint\<close>)
  have m3: "mean (map2 lcs_overlap ?ps ?rs) = 0"
    by (rule mean_constant [OF zne]) (rule map2_constant [OF l], use d in \<open>simp add: lcs_overlap_disjoint\<close>)
  have m4: "mean (map2 summary_lcs_overlap ?ps ?rs) = 0"
    by (rule mean_constant [OF zne]) (rule map2_constant [OF l], use d in \<open>simp add: summary_lcs_overlap_disjoint\<close>)
  show ?thesis
    unfolding score_def rouge_compute_def Let_def
    using m1 m2 m3 m4 len by simp
qed

lemma compare_equal_length:
  "length a = length b \<Longrightarrow>
   compare a b = Inr (map2 (\<lambda>(key, x) (key', y). (key, (x - y) * 100)) a b)"
proof -
  assume len: "length a = length b"
  then have "map (\<lambda>(key, v). (key, v * 100)) (zip (map fst a) (map2 (-) (map snd a) (map snd b)))
      = map2 (\<lambda>(key, x) (key', y). (key, (x - y) * 100)) a b"
    by (induction a b rule: list_induct2) (simp_all add: case_prod_beta)
  with len show ?thesis
    by (simp add: compare_def improvement_def np_subtract_def)
qed

lemma compare_error:
  "compare a b = Inl e \<Longrightarrow> e = ValueError \<and> length a \<noteq> length b \<and> length a \<noteq> 1 \<and> length b \<noteq> 1"
  by (auto simp: compare_def improvement_def np_subtract_def split: if_splits sum.splits)

lemma compare_value_error:
  "length a \<noteq> length b \<Longrightarrow> length a \<noteq> 1 \<Longrightarrow> length b \<noteq> 1 \<Longrightarrow> compare a b = Inl ValueError"
  by (simp add: compare_def improvement_def np_subtract_def)

lemma map_of_deltas:
  fixes a b :: ScoreSet
  assumes "length a = length b" "map fst a = map fst b"
    "map_of a k = Some x" "map_of b k = Some y"
  shows "map_of (map2 (\<lambda>(key, x) (key', y). (key, (x - y) * 100)) a b) k = Some ((x - y) * 100)"
  using assms
proof (induction a b rule: list_induct2)
  case Nil
  then show ?case by simp
next
  case (Cons p a q b)
  then show ?case
    by (cases p; cases q) (auto split: if_splits)
qed

lemma keys_deltas:
  fixes a b :: ScoreSet
  shows "length a = length b \<Longrightarrow>
   map fst (map2 (\<lambda>(key, x) (key', y). (key, (x - y) * 100)) a b) = map fst a"
  by (induction a b rule: list_induct2) (simp_all add: case_prod_beta)

lemma compare_keyed:
  assumes keys: "map fst a = map fst b"
  shows "\<exists>r. compare a b = Inr r \<and> map fst r = map fst a
     \<and> (\<forall>k x y. map_of a k = Some x \<and> map_of b k = Some y \<longrightarrow>
           map_of r k = Some (100 * (x - y)) \<and> (0 < 100 * (x - y) \<longleftrightarrow> y < x))"
proof -
  from keys have len: "length a = length b"
    by (metis length_map)
  let ?r = "map2 (\<lambda>(key, x) (key', y). (key, (x - y) * 100)) a b"
  have "compare a b = Inr ?r" by (rule compare_equal_length [OF len])
  moreover have "map fst ?r = map fst a" by (rule keys_deltas [OF len])
  moreover have "\<forall>k x y. map_of a k = Some x \<and> map_of b k = Some y \<longrightarrow>
           map_of ?r k = Some (100 * (x - y)) \<and> (0 < 100 * (x - y) \<longleftrightarrow> y < x)"
    using map_of_deltas [OF len keys] by (auto simp: mult.commute)
  ultimately show ?thesis by blast
qed

lemma compare_self: "compare a a = Inr (map (\<lambda>(key, x). (key, 0)) a)"
proof -
  have "map2 (\<lambda>(key, x) (key', y). (key, (x - y) * 100)) a a = map (\<lambda>(key, x). (key, 0)) a"
    by (induction a) (simp_all add: case_prod_beta)
  then show ?thesis
    by (simp add: compare_equal_length)
qed

lemma compare_swap_values:
  fixes a b :: ScoreSet
  assumes len: "length a = length b"
  shows "map snd (map2 (\<lambda>(key, x) (key', y). (key, (x - y) * 100)) b a)
     = map uminus (map snd (map2 (\<lambda>(key, x) (key', y). (key, (x - y) * 100)) a b))"
  using len by (induction a b rule: list_induct2) (simp_all add: case_prod_beta algebra_simps)

lemma compare_swap_keyed:
  fixes a b :: ScoreSet
  assumes len: "length a = length b" and keys: "map fst a = map fst b"
  shows "map2 (\<lambda>(key, x) (key', y). (key, (x - y) * 100)) b a
     = map (\<lambda>(key, v). (key, - v)) (map2 (\<lambda>(key, x) (key', y). (key, (x - y) * 100)) a b)"
  using len keys by (induction a b rule: list_induct2) (simp_all add: case_prod_beta algebra_simps)

lemma for_loop_bound:
  assumes "py_index hs i = Inr h"
  shows "for_loop g hs (Some i) st ds =
    (st\<lparr>original_model_summaries :=
          original_model_summaries st @ map (\<lambda>d. g Original (quantitative_prompt d)) ds,
        instruct_model_summaries :=
          instruct_model_summaries st @ map (\<lambda>d. g Instruct (quantitative_prompt d)) ds,
        peft_model_summaries :=
          peft_model_summaries st @ map (\<lambda>d. g Peft (quantitative_prompt d)) ds,
        generate_calls :=
          generate_calls st @ concat (map (\<lambda>d. [(Original, quantitative_prompt d),
             (Instruct, quantitative_prompt d), (Peft, quantitative_prompt d)]) ds),
        human_baseline_text_output :=
          (if ds = [] then human_baseline_text_output st else Some h)\<rparr>, None)"
  using assms
proof (induction ds arbitrary: st)
  case Nil
  then show ?case by simp
next
  case (Cons d ds)
  then show ?case
    by (simp add: loop_body_def Let_def)
qed

lemma for_loop_stopped:
  assumes "idx = None \<or> (\<exists>i e. idx = Some i \<and> py_index hs i = Inl e)"
  shows "fst (for_loop g hs idx st ds) = st"
  using assms by (cases ds) (auto simp: loop_body_def)

lemma quantitative_evaluation_state:
  "fst (quantitative_evaluation g idx test) = no_summaries
   \<or> (\<exists>h. fst (quantitative_evaluation g idx test)
        = no_summaries\<lparr>original_model_summaries :=
              map (\<lambda>r. g Original (quantitative_prompt (dialogue r))) (take 10 test),
            instruct_model_summaries :=
              map (\<lambda>r. g Instruct (quantitative_prompt (dialogue r))) (take 10 test),
            peft_model_summaries :=
              map (\<lambda>r. g Peft (quantitative_prompt (dialogue r))) (take 10 test),
            generate_calls :=
              concat (map (\<lambda>r. [(Original, quantitative_prompt (dialogue r)),
                (Instruct, quantitative_prompt (dialogue r)),
                (Peft, quantitative_prompt (dialogue r))]) (take 10 test)),
            human_baseline_text_output := h\<rparr>)"
proof (cases "idx = None \<or> (\<exists>i e. idx = Some i \<and> py_index (human_baseline_summaries_of test) i = Inl e)")
  case True
  then have "fst (quantitative_evaluation g idx test) = no_summaries"
    unfolding quantitative_evaluation_def by (rule for_loop_stopped)
  then show ?thesis by blast
next
  case False
  then obtain i h where idx: "idx = Some i"
    and h: "py_index (human_baseline_summaries_of test) i = Inr h"
    by (cases idx) (auto, metis sum.exhaust)
  show ?thesis
    unfolding quantitative_evaluation_def idx for_loop_bound [OF h]
    by (simp add: no_summaries_def dialogues_of_def comp_def)
qed

lemma rouge_compute_rows:
  "rouge_compute tok stem us (map a rows) (map b rows)
     = Inr [(''rouge1'', mean (map (\<lambda>r. ngram_overlap 1 (normalise tok stem us (a r))
                (normalise tok stem us (b r))) rows)),
            (''rouge2'', mean (map (\<lambda>r. ngram_overlap 2 (normalise tok stem us (a r))
                (normalise tok stem us (b r))) rows)),
            (''rougeL'', mean (map (\<lambda>r. lcs_overlap (normalise tok stem us (a r))
                (normalise tok stem us (b r))) rows)),
            (''rougeLsum'', mean (map (\<lambda>r. summary_lcs_overlap (normalise tok stem us (a r))
                (normalise tok stem us (b r))) rows))]"
  by (simp add: rouge_compute_def Let_def zip_map_map zip_same_conv_map comp_def)

lemma score_longer_predictions:
  "length r < length p \<Longrightarrow> score tok stem us p r = Inl LengthMismatch"
  by (simp add: score_def rouge_compute_def)

lemma score_truncates:
  "p \<noteq> [] \<Longrightarrow> length p \<le> length r \<Longrightarrow>
   score tok stem us p r = score tok stem us p (take (length p) r) \<and> (\<exists>s. score tok stem us p r = Inr s)"
  by (simp add: score_def rouge_compute_def Let_def)


section \<open>Settled properties of the scorer call\<close>

text \<open>
  C2, as the claim states it, fails: with one prediction and two references the call
  does not fail with \<open>LengthMismatch\<close>; the slice drops the second reference and the
  metrics are computed on what is left.
\<close>

theorem score_truncates_references_counterexample:
  "length [''a b''] \<noteq> length [''a b'', ''c d'']
   \<and> score words_tok id True [''a b''] [''a b'', ''c d'']
       = Inr [(''rouge1'', 1), (''rouge2'', 1), (''rougeL'', 1), (''rougeLsum'', 1)]
   \<and> score words_tok id True [''a b''] [''a b'', ''c d'']
       = score words_tok id True [''a b''] [''a b'']"
  by (simp add: score_def rouge_compute_def normalise_def words_tok_def ngram_overlap_def
       lcs_overlap_def summary_lcs_overlap_def fmeasure_def mean_def)

text \<open>
  C2, amended. When there are more predictions than references the call fails with
  \<open>LengthMismatch\<close>, raised by the metric capability on the sliced references. When
  the predictions are not empty and at most as many as the references, the call does not
  fail: it scores the predictions against the first \<open>length p\<close> references.
\<close>

theorem score_length_handling:
  "(length r < length p \<longrightarrow> score tok stem us p r = Inl LengthMismatch)
   \<and> (p \<noteq> [] \<and> length p \<le> length r \<longrightarrow>
        score tok stem us p r = score tok stem us p (take (length p) r)
        \<and> (\<exists>s. score tok stem us p r = Inr s))"
  using score_longer_predictions [of r p tok stem us] score_truncates [of p r tok stem us]
  by blast

theorem score_length_handling_witness:
  "length [''a b''] < length [''a b'', ''c d'']
   \<and> score words_tok id True [''a b'', ''c d''] [''a b''] = Inl LengthMismatch
   \<and> [''a b''] \<noteq> []
   \<and> length [''a b''] \<le> length [''a b'', ''c d'']
   \<and> score words_tok id True [''a b''] [''a b'', ''c d'']
       = score words_tok id True [''a b''] (take (length [''a b'']) [''a b'', ''c d''])
   \<and> (\<exists>s. score words_tok id True [''a b''] [''a b'', ''c d''] = Inr s)"
proof -
  have shorter: "length [''a b''] < length [''a b'', ''c d'']"
    by simp
  have at_most: "length [''a b''] \<le> length [''a b'', ''c d'']"
    by simp
  have ne: "[''a b''] \<noteq> []"
    by simp
  from shorter at_most ne
    score_length_handling [of "[''a b'']" "[''a b'', ''c d'']" words_tok id True]
    score_length_handling [of "[''a b'', ''c d'']" "[''a b'']" words_tok id True]
  show ?thesis by blast
qed

text \<open>
  C6, as the claim states it, fails on both halves. A one-token string has no bigram, so
  scoring \<open>[''a'']\<close> against itself gives bigram overlap 0, the same value as scoring it
  against the disjoint \<open>[''x'']\<close>: both pairs have the same, empty, bigram multisets,
  so no bigram score can be 1 on the first and 0 on the second. And two disjoint
  vocabularies can meet after stemming: \<open>cats\<close> against \<open>cat\<close> scores 1 on unigrams.
\<close>

theorem score_single_token_counterexample:
  "score words_tok id True [''a''] [''a'']
     = Inr [(''rouge1'', 1), (''rouge2'', 0), (''rougeL'', 1), (''rougeLsum'', 1)]
   \<and> score words_tok id True [''a''] [''x'']
     = Inr [(''rouge1'', 0), (''rouge2'', 0), (''rougeL'', 0), (''rougeLsum'', 0)]
   \<and> set (words_tok ''cats'') \<inter> set (words_tok ''cat'') = {}
   \<and> score words_tok plural_stem True [''cats''] [''cat'']
     = Inr [(''rouge1'', 1), (''rouge2'', 0), (''rougeL'', 1), (''rougeLsum'', 1)]"
  by (simp add: score_def rouge_compute_def normalise_def words_tok_def plural_stem_def
       ngram_overlap_def lcs_overlap_def summary_lcs_overlap_def fmeasure_def mean_def)

text \<open>
  C6, amended. For every non-empty sequence \<open>p\<close> whose strings each have at least two
  tokens, scoring \<open>p\<close> against itself gives 1 on all four metrics, with or without
  stemming. For every non-empty pair of sequences of the same length whose token lists,
  after the stemming in force, share no token at any position, the score is 0 on all
  four metrics.
\<close>

theorem score_identical_one_disjoint_zero:
  "(p \<noteq> [] \<and> (\<forall>s\<in>set p. 2 \<le> length (normalise tok stem us s)) \<longrightarrow>
      score tok stem us p p
        = Inr [(''rouge1'', 1), (''rouge2'', 1), (''rougeL'', 1), (''rougeLsum'', 1)])
   \<and> (p \<noteq> [] \<and> length p = length r
       \<and> (\<forall>i<length p. set (normalise tok stem us (p ! i))
              \<inter> set (normalise tok stem us (r ! i)) = {}) \<longrightarrow>
      score tok stem us p r
        = Inr [(''rouge1'', 0), (''rouge2'', 0), (''rougeL'', 0), (''rougeLsum'', 0)])"
  using score_identical [of p tok stem us] score_disjoint [of p r tok stem us]
  by blast

theorem score_identical_one_disjoint_zero_witness:
  "[''the cat sat'', ''a dog ran''] \<noteq> []
   \<and> normalise words_tok id True ''the cat sat'' = [''the'', ''cat'', ''sat'']
   \<and> normalise words_tok id True ''a dog ran'' = [''a'', ''dog'', ''ran'']
   \<and> score words_tok id True [''the cat sat'', ''a dog ran''] [''the cat sat'', ''a dog ran'']
       = Inr [(''rouge1'', 1), (''rouge2'', 1), (''rougeL'', 1), (''rougeLsum'', 1)]
   \<and> length [''a b c''] = length [''x y z'']
   \<and> set (normalise words_tok id True ''a b c'') \<inter> set (normalise words_tok id True ''x y z'') = {}
   \<and> score words_tok id True [''a b c''] [''x y z'']
       = Inr [(''rouge1'', 0), (''rouge2'', 0), (''rougeL'', 0), (''rougeLsum'', 0)]"
proof -
  have h1: "\<forall>s\<in>set [''the cat sat'', ''a dog ran'']. 2 \<le> length (normalise words_tok id True s)"
    by (simp add: normalise_def words_tok_def)
  have h2: "\<forall>i<length [''a b c'']. set (normalise words_tok id True ([''a b c''] ! i))
          \<inter> set (normalise words_tok id True ([''x y z''] ! i)) = {}"
    by (simp add: normalise_def words_tok_def)
  have n1: "normalise words_tok id True ''the cat sat'' = [''the'', ''cat'', ''sat'']"
    by (simp add: normalise_def words_tok_def)
  have n2: "normalise words_tok id True ''a dog ran'' = [''a'', ''dog'', ''ran'']"
    by (simp add: normalise_def words_tok_def)
  have n3: "set (normalise words_tok id True ''a b c'') \<inter> set (normalise words_tok id True ''x y z'') = {}"
    by (simp add: normalise_def words_tok_def)
  from h1 h2 n1 n2 n3
    score_identical_one_disjoint_zero
      [of "[''the cat sat'', ''a dog ran'']" words_tok id True "[''the cat sat'', ''a dog ran'']"]
    score_identical_one_disjoint_zero [of "[''a b c'']" words_tok id True "[''x y z'']"]
  show ?thesis by simp
qed


section \<open>Settled properties of the comparator\<close>

text \<open>
  C3, as the claim states it, fails: the two sample score sets have the same four keys,
  inserted in different orders. The comparison pairs the values by position, so it
  reports 40 for \<open>rouge1\<close> where \<open>100 * (a[rouge1] - b[rouge1])\<close> is 20, and a negative
  delta for \<open>rouge2\<close> although \<open>a\<close> is the better one there.
\<close>

theorem compare_reordered_keys_counterexample:
  "set (map fst sample_scores_a) = set (map fst sample_scores_b_reordered)
   \<and> compare sample_scores_a sample_scores_b_reordered
       = Inr [(''rouge1'', 40), (''rouge2'', - 10), (''rougeL'', 10), (''rougeLsum'', 10)]
   \<and> map_of sample_scores_a ''rouge1'' = Some (1/2)
   \<and> map_of sample_scores_b_reordered ''rouge1'' = Some (3/10)
   \<and> (40::real) \<noteq> 100 * (1/2 - 3/10)
   \<and> map_of sample_scores_a ''rouge2'' = Some (1/5)
   \<and> map_of sample_scores_b_reordered ''rouge2'' = Some (1/10)
   \<and> (1/10::real) < 1/5"
proof -
  have keys: "set (map fst sample_scores_a) = set (map fst sample_scores_b_reordered)"
    by (auto simp: sample_scores_a_def sample_scores_b_reordered_def)
  have "compare sample_scores_a sample_scores_b_reordered
       = Inr [(''rouge1'', 40), (''rouge2'', - 10), (''rougeL'', 10), (''rougeLsum'', 10)]"
    by (simp add: sample_scores_a_def sample_scores_b_reordered_def compare_def improvement_def
         np_subtract_def)
  with keys show ?thesis
    by (simp add: sample_scores_a_def sample_scores_b_reordered_def)
qed

text \<open>
  C3, amended. For every pair of score sets with the same keys in the same order,
  the comparison succeeds, keeps the keys, and maps each key \<open>k\<close> to
  \<open>100 * (a[k] - b[k])\<close>, which is positive exactly when \<open>a\<close> has the larger score on
  \<open>k\<close>.
\<close>

theorem compare_same_key_order:
  assumes "map fst a = map fst b"
  shows "\<exists>r. compare a b = Inr r \<and> map fst r = map fst a
     \<and> (\<forall>k x y. map_of a k = Some x \<and> map_of b k = Some y \<longrightarrow>
           map_of r k = Some (100 * (x - y)) \<and> (0 < 100 * (x - y) \<longleftrightarrow> y < x))"
  using assms by (rule compare_keyed)

theorem compare_same_key_order_witness:
  "map fst sample_scores_a = map fst sample_scores_b
   \<and> (\<exists>r. compare sample_scores_a sample_scores_b = Inr r
        \<and> map fst r = map fst sample_scores_a
        \<and> map_of r ''rouge1'' = Some (100 * (1/2 - 3/10)))"
proof -
  have keys: "map fst sample_scores_a = map fst sample_scores_b"
    by (simp add: sample_scores_a_def sample_scores_b_def)
  have a1: "map_of sample_scores_a ''rouge1'' = Some (1/2)"
    by (simp add: sample_scores_a_def)
  have b1: "map_of sample_scores_b ''rouge1'' = Some (3/10)"
    by (simp add: sample_scores_b_def)
  from compare_same_key_order [OF keys] a1 b1 keys show ?thesis
    by blast
qed

text \<open>
  C4, as the claim states it, fails: score sets with different metric names are compared
  without any failure, the second one's values being subtracted under the first one's
  names.
\<close>

theorem compare_different_keys_counterexample:
  "set (map fst [(''rouge1'', 1/2 :: real), (''rouge2'', 1/5)])
     \<noteq> set (map fst [(''rougeL'', 3/10 :: real), (''rougeLsum'', 1/10)])
   \<and> compare [(''rouge1'', 1/2), (''rouge2'', 1/5)] [(''rougeL'', 3/10), (''rougeLsum'', 1/10)]
       = Inr [(''rouge1'', 20), (''rouge2'', 10)]"
proof -
  have "''rouge1'' \<in> set (map fst [(''rouge1'', 1/2 :: real), (''rouge2'', 1/5)])"
    by simp
  moreover have "''rouge1'' \<notin> set (map fst [(''rougeL'', 3/10 :: real), (''rougeLsum'', 1/10)])"
    by simp
  ultimately have keys: "set (map fst [(''rouge1'', 1/2 :: real), (''rouge2'', 1/5)])
     \<noteq> set (map fst [(''rougeL'', 3/10 :: real), (''rougeLsum'', 1/10)])"
    by blast
  have "compare [(''rouge1'', 1/2), (''rouge2'', 1/5)] [(''rougeL'', 3/10), (''rougeLsum'', 1/10)]
       = Inr [(''rouge1'', 20), (''rouge2'', 10)]"
    by (simp add: compare_def improvement_def np_subtract_def)
  with keys show ?thesis by blast
qed

text \<open>
  C4, amended. The comparison never looks at the metric names of its second argument.
  Whenever the two score sets have the same number of entries it succeeds, pairing the
  values by position under the first set's keys, whatever the keys of the second. Its
  only failure is numpy's \<open>ValueError\<close>, raised exactly when the numbers of entries
  differ and neither is 1.
\<close>

theorem compare_pairs_by_position:
  "(length a = length b \<longrightarrow>
      compare a b = Inr (map2 (\<lambda>(key, x) (key', y). (key, (x - y) * 100)) a b))
   \<and> (compare a b = Inl e \<longrightarrow>
        e = ValueError \<and> length a \<noteq> length b \<and> length a \<noteq> 1 \<and> length b \<noteq> 1)
   \<and> (length a \<noteq> length b \<and> length a \<noteq> 1 \<and> length b \<noteq> 1 \<longrightarrow>
        compare a b = Inl ValueError)"
  using compare_equal_length [of a b] compare_error [of a b e] compare_value_error [of a b]
  by blast

theorem compare_pairs_by_position_witness:
  "length [(''rouge1'', 1/2 :: real), (''rouge2'', 1/5)]
     = length [(''rougeL'', 3/10 :: real), (''rougeLsum'', 1/10)]
   \<and> compare [(''rouge1'', 1/2), (''rouge2'', 1/5)] [(''rougeL'', 3/10), (''rougeLsum'', 1/10)]
       = Inr [(''rouge1'', 20), (''rouge2'', 10)]
   \<and> compare [(''rouge1'', 1/2), (''rouge2'', 1/5)] [] = Inl ValueError"
  using compare_pairs_by_position
      [of "[(''rouge1'', 1/2), (''rouge2'', 1/5)]" "[(''rougeL'', 3/10), (''rougeLsum'', 1/10)]"
        ValueError]
    compare_pairs_by_position [of "[(''rouge1'', 1/2), (''rouge2'', 1/5)]" "[]" ValueError]
  by simp

text \<open>
  C5, as the claim states it, fails on its second half: for the two sample score sets
  with the same keys in different orders, exchanging the arguments gives \<open>rouge1\<close> the
  delta 10, not the negation of 40, since each result carries the key order of its
  first argument.
\<close>

theorem compare_swap_reordered_counterexample:
  "set (map fst sample_scores_a) = set (map fst sample_scores_b_reordered)
   \<and> compare sample_scores_a sample_scores_b_reordered
       = Inr [(''rouge1'', 40), (''rouge2'', - 10), (''rougeL'', 10), (''rougeLsum'', 10)]
   \<and> compare sample_scores_b_reordered sample_scores_a
       = Inr [(''rouge2'', - 40), (''rouge1'', 10), (''rougeL'', - 10), (''rougeLsum'', - 10)]
   \<and> compare sample_scores_b_reordered sample_scores_a
       \<noteq> Inr [(''rouge1'', - 40), (''rouge2'', 10), (''rougeL'', - 10), (''rougeLsum'', - 10)]"
proof -
  have keys: "set (map fst sample_scores_a) = set (map fst sample_scores_b_reordered)"
    by (auto simp: sample_scores_a_def sample_scores_b_reordered_def)
  have ab: "compare sample_scores_a sample_scores_b_reordered
       = Inr [(''rouge1'', 40), (''rouge2'', - 10), (''rougeL'', 10), (''rougeLsum'', 10)]"
    by (simp add: sample_scores_a_def sample_scores_b_reordered_def compare_def improvement_def
         np_subtract_def)
  have ba: "compare sample_scores_b_reordered sample_scores_a
       = Inr [(''rouge2'', - 40), (''rouge1'', 10), (''rougeL'', - 10), (''rougeLsum'', - 10)]"
    by (simp add: sample_scores_a_def sample_scores_b_reordered_def compare_def improvement_def
         np_subtract_def)
  from keys ab ba show ?thesis by simp
qed

text \<open>
  C5, amended. Comparing a score set with itself gives the delta zero on every metric.
  For every pair of score sets with the same keys in the same order, exchanging the
  arguments negates every delta and keeps its key. For score sets with the same number
  of entries in any key order, exchanging the arguments negates the sequence of deltas
  position by position.
\<close>

theorem compare_self_zero_and_swap_negates:
  "compare a a = Inr (map (\<lambda>(key, x). (key, 0)) a)
   \<and> (map fst a = map fst b \<longrightarrow>
        (\<exists>r. compare a b = Inr r \<and> compare b a = Inr (map (\<lambda>(key, v). (key, - v)) r)))
   \<and> (length a = length b \<longrightarrow>
        (\<exists>r r'. compare a b = Inr r \<and> compare b a = Inr r'
           \<and> map snd r' = map uminus (map snd r)))"
proof -
  have swap_keyed: "map fst a = map fst b \<longrightarrow>
        (\<exists>r. compare a b = Inr r \<and> compare b a = Inr (map (\<lambda>(key, v). (key, - v)) r))"
  proof
    assume keys: "map fst a = map fst b"
    then have len: "length a = length b" by (metis length_map)
    from compare_equal_length [OF len] compare_equal_length [OF len [symmetric]]
      compare_swap_keyed [OF len keys]
    show "\<exists>r. compare a b = Inr r \<and> compare b a = Inr (map (\<lambda>(key, v). (key, - v)) r)"
      by simp
  qed
  have swap_values: "length a = length b \<longrightarrow>
        (\<exists>r r'. compare a b = Inr r \<and> compare b a = Inr r'
           \<and> map snd r' = map uminus (map snd r))"
  proof
    assume len: "length a = length b"
    from compare_equal_length [OF len] compare_equal_length [OF len [symmetric]]
      compare_swap_values [OF len]
    show "\<exists>r r'. compare a b = Inr r \<and> compare b a = Inr r'
           \<and> map snd r' = map uminus (map snd r)"
      by simp
  qed
  from compare_self [of a] swap_keyed swap_values show ?thesis by blast
qed

theorem compare_self_zero_and_swap_negates_witness:
  "compare sample_scores_a sample_scores_a
     = Inr [(''rouge1'', 0), (''rouge2'', 0), (''rougeL'', 0), (''rougeLsum'', 0)]
   \<and> map fst sample_scores_a = map fst sample_scores_b
   \<and> length sample_scores_a = length sample_scores_b
   \<and> (\<exists>r. compare sample_scores_a sample_scores_b = Inr r
        \<and> compare sample_scores_b sample_scores_a = Inr (map (\<lambda>(key, v). (key, - v)) r))"
proof -
  have keys: "map fst sample_scores_a = map fst sample_scores_b"
    by (simp add: sample_scores_a_def sample_scores_b_def)
  have zeros: "map (\<lambda>(key, x). (key, 0::real)) sample_scores_a
     = [(''rouge1'', 0), (''rouge2'', 0), (''rougeL'', 0), (''rougeLsum'', 0)]"
    by (simp add: sample_scores_a_def)
  from keys have len: "length sample_scores_a = length sample_scores_b"
    by (metis length_map)
  from compare_self_zero_and_swap_negates [of sample_scores_a sample_scores_b] keys len zeros
  show ?thesis by simp
qed

text \<open>
  The comparison of the two recorded score sets of the ten-row batch: the unigram delta
  of the fully fine-tuned model over the original one is positive, about 14.49.
\<close>

lemma recorded_rouge1_delta:
  "compare recorded_instruct_model_results recorded_original_model_results
     = Inr [(''rouge1'', 14.4901331874585), (''rouge2'', 4.623673790745947),
            (''rougeL'', 5.980187142602434), (''rougeLsum'', 5.675541566892183)]
   \<and> (14.4 :: real) < 14.4901331874585 \<and> (14.4901331874585 :: real) < 14.6"
  by (simp add: recorded_instruct_model_results_def recorded_original_model_results_def
       compare_def improvement_def np_subtract_def)


section \<open>Settled properties of the evaluation loop\<close>

text \<open>
  C7. In every run of the cell, whatever \<^verbatim>\<open>idx\<close> is bound to, the summaries gathered
  for a model variant are the outputs for the first rows of the batch, in row order and
  as many for each variant: the \<open>n\<close>-th summary of variant \<open>v\<close> is generated from the
  prompt of the \<open>n\<close>-th row's dialogue. The zipped table puts it beside the \<open>n\<close>-th
  row's human summary. The scorer call on these summaries and the human summaries is the
  metric computed on the generated and the human summaries of those same rows; when
  there are summaries at all, each metric is the mean, over the rows, of the overlap of a
  row's generated summary with that row's human summary. When \<^verbatim>\<open>idx\<close> is bound to an
  index of the human summaries the loop runs to its end and covers every row.
\<close>

theorem summaries_aligned_with_records:
  "summaries_of v (fst (quantitative_evaluation g idx test))
     = map (\<lambda>r. g v (quantitative_prompt (dialogue r)))
         (take (length (original_model_summaries (fst (quantitative_evaluation g idx test))))
            (take 10 test))
   \<and> zipped_summaries (human_baseline_summaries_of test)
          (fst (quantitative_evaluation g idx test))
        = map (\<lambda>r. (summary r, g Original (quantitative_prompt (dialogue r)),
                 g Instruct (quantitative_prompt (dialogue r)),
                 g Peft (quantitative_prompt (dialogue r))))
            (take (length (original_model_summaries (fst (quantitative_evaluation g idx test))))
               (take 10 test))
   \<and> score tok stem us (summaries_of v (fst (quantitative_evaluation g idx test)))
          (human_baseline_summaries_of test)
        = rouge_compute tok stem us
            (map (\<lambda>r. g v (quantitative_prompt (dialogue r)))
               (take (length (original_model_summaries (fst (quantitative_evaluation g idx test))))
                  (take 10 test)))
            (map summary
               (take (length (original_model_summaries (fst (quantitative_evaluation g idx test))))
                  (take 10 test)))
   \<and> (summaries_of v (fst (quantitative_evaluation g idx test)) \<noteq> [] \<longrightarrow>
        score tok stem us (summaries_of v (fst (quantitative_evaluation g idx test)))
          (human_baseline_summaries_of test)
        = Inr [(''rouge1'', mean (map (\<lambda>r. ngram_overlap 1
                   (normalise tok stem us (g v (quantitative_prompt (dialogue r))))
                   (normalise tok stem us (summary r))) (take 10 test))),
               (''rouge2'', mean (map (\<lambda>r. ngram_overlap 2
                   (normalise tok stem us (g v (quantitative_prompt (dialogue r))))
                   (normalise tok stem us (summary r))) (take 10 test))),
               (''rougeL'', mean (map (\<lambda>r. lcs_overlap
                   (normalise tok stem us (g v (quantitative_prompt (dialogue r))))
                   (normalise tok stem us (summary r))) (take 10 test))),
               (''rougeLsum'', mean (map (\<lambda>r. summary_lcs_overlap
                   (normalise tok stem us (g v (quantitative_prompt (dialogue r))))
                   (normalise tok stem us (summary r))) (take 10 test)))])
   \<and> (py_index (human_baseline_summaries_of test) i = Inr h \<longrightarrow>
        snd (quantitative_evaluation g (Some i) test) = None
        \<and> summaries_of v (fst (quantitative_evaluation g (Some i) test))
            = map (\<lambda>r. g v (quantitative_prompt (dialogue r))) (take 10 test))"
proof -
  let ?st = "fst (quantitative_evaluation g idx test)"
  let ?rows = "take (length (original_model_summaries ?st)) (take 10 test)"
  let ?out = "\<lambda>v r. g v (quantitative_prompt (dialogue r))"
  have tk: "take (min (length test) 10) test = take 10 test"
    by (simp add: min_def)
  from quantitative_evaluation_state [of g idx test] tk
  have rows: "(\<forall>v. summaries_of v ?st = []) \<and> ?rows = []
     \<or> (\<forall>v. summaries_of v ?st = map (?out v) (take 10 test)) \<and> ?rows = take 10 test"
    by (auto simp: summaries_of_def no_summaries_def split: model_variant.splits)
  then have lists: "summaries_of v ?st = map (?out v) ?rows"
    by auto
  have zipped: "zipped_summaries (human_baseline_summaries_of test) ?st
      = map (\<lambda>r. (summary r, ?out Original r, ?out Instruct r, ?out Peft r)) ?rows"
  proof -
    from rows have "original_model_summaries ?st = map (?out Original) ?rows"
      "instruct_model_summaries ?st = map (?out Instruct) ?rows"
      "peft_model_summaries ?st = map (?out Peft) ?rows"
      and "?rows = [] \<or> ?rows = take 10 test"
      by (auto simp: summaries_of_def split: model_variant.splits
            dest: spec [of _ Original] spec [of _ Instruct] spec [of _ Peft])
    then show ?thesis
      unfolding zipped_summaries_def human_baseline_summaries_of_def
      by (auto simp: zip_map_map zip_same_conv_map)
  qed
  have sliced: "take (length (summaries_of v ?st)) (human_baseline_summaries_of test)
      = map summary ?rows"
  proof -
    from rows consider
      (stopped) "summaries_of v ?st = []" "?rows = []"
      | (completed) "summaries_of v ?st = map (?out v) (take 10 test)" "?rows = take 10 test"
      by blast
    then show ?thesis
    proof cases
      case stopped
      show ?thesis unfolding stopped by simp
    next
      case completed
      show ?thesis unfolding completed by (simp add: human_baseline_summaries_of_def)
    qed
  qed
  have scored: "score tok stem us (summaries_of v ?st) (human_baseline_summaries_of test)
      = rouge_compute tok stem us (map (?out v) ?rows) (map summary ?rows)"
    unfolding score_def sliced by (simp add: lists)
  have means: "summaries_of v ?st \<noteq> [] \<longrightarrow>
      score tok stem us (summaries_of v ?st) (human_baseline_summaries_of test)
        = Inr [(''rouge1'', mean (map (\<lambda>r. ngram_overlap 1
                   (normalise tok stem us (?out v r))
                   (normalise tok stem us (summary r))) (take 10 test))),
               (''rouge2'', mean (map (\<lambda>r. ngram_overlap 2
                   (normalise tok stem us (?out v r))
                   (normalise tok stem us (summary r))) (take 10 test))),
               (''rougeL'', mean (map (\<lambda>r. lcs_overlap
                   (normalise tok stem us (?out v r))
                   (normalise tok stem us (summary r))) (take 10 test))),
               (''rougeLsum'', mean (map (\<lambda>r. summary_lcs_overlap
                   (normalise tok stem us (?out v r))
                   (normalise tok stem us (summary r))) (take 10 test)))]"
  proof
    assume ne: "summaries_of v ?st \<noteq> []"
    with rows have full: "?rows = take 10 test"
      by auto
    show "score tok stem us (summaries_of v ?st) (human_baseline_summaries_of test)
        = Inr [(''rouge1'', mean (map (\<lambda>r. ngram_overlap 1
                   (normalise tok stem us (?out v r))
                   (normalise tok stem us (summary r))) (take 10 test))),
               (''rouge2'', mean (map (\<lambda>r. ngram_overlap 2
                   (normalise tok stem us (?out v r))
                   (normalise tok stem us (summary r))) (take 10 test))),
               (''rougeL'', mean (map (\<lambda>r. lcs_overlap
                   (normalise tok stem us (?out v r))
                   (normalise tok stem us (summary r))) (take 10 test))),
               (''rougeLsum'', mean (map (\<lambda>r. summary_lcs_overlap
                   (normalise tok stem us (?out v r))
                   (normalise tok stem us (summary r))) (take 10 test)))]"
      unfolding scored full by (rule rouge_compute_rows)
  qed
  have completes: "py_index (human_baseline_summaries_of test) i = Inr h \<longrightarrow>
        snd (quantitative_evaluation g (Some i) test) = None
        \<and> summaries_of v (fst (quantitative_evaluation g (Some i) test))
            = map (?out v) (take 10 test)"
  proof
    assume h: "py_index (human_baseline_summaries_of test) i = Inr h"
    show "snd (quantitative_evaluation g (Some i) test) = None
        \<and> summaries_of v (fst (quantitative_evaluation g (Some i) test))
            = map (?out v) (take 10 test)"
      unfolding quantitative_evaluation_def for_loop_bound [OF h]
      by (cases v) (simp_all add: summaries_of_def no_summaries_def dialogues_of_def comp_def)
  qed
  from lists zipped scored means completes show ?thesis
    by blast
qed


theorem summaries_aligned_with_records_witness:
  "py_index (human_baseline_summaries_of sample_test) 1 = Inr ''A leaves B.''
   \<and> snd (quantitative_evaluation sample_generate (Some 1) sample_test) = None
   \<and> summaries_of Peft (fst (quantitative_evaluation sample_generate (Some 1) sample_test))
       = [''P:A: Hi. '', ''P:A: Bye.'']
   \<and> summaries_of Peft (fst (quantitative_evaluation sample_generate (Some 1) sample_test)) \<noteq> []
   \<and> score words_tok id True
         (summaries_of Peft (fst (quantitative_evaluation sample_generate (Some 1) sample_test)))
         (human_baseline_summaries_of sample_test)
       = rouge_compute words_tok id True [''P:A: Hi. '', ''P:A: Bye.'']
           [''A greets B.'', ''A leaves B.'']
   \<and> score words_tok id True
         (summaries_of Peft (fst (quantitative_evaluation sample_generate (Some 1) sample_test)))
         (human_baseline_summaries_of sample_test)
       = Inr [(''rouge1'', 0), (''rouge2'', 0), (''rougeL'', 0), (''rougeLsum'', 0)]
   \<and> summaries_of Peft (fst (quantitative_evaluation sample_generate None sample_test)) = []"
proof -
  let ?st = "fst (quantitative_evaluation sample_generate (Some 1) sample_test)"
  have h: "py_index (human_baseline_summaries_of sample_test) 1 = Inr ''A leaves B.''"
    by (simp add: py_index_def human_baseline_summaries_of_def sample_test_def)
  have outputs: "map (\<lambda>r. sample_generate Peft (quantitative_prompt (dialogue r)))
      (take 10 sample_test) = [''P:A: Hi. '', ''P:A: Bye.'']"
    by (simp add: sample_test_def sample_generate_def quantitative_prompt_def)
  have refs: "map summary (take 10 sample_test) = [''A greets B.'', ''A leaves B.'']"
    by (simp add: sample_test_def)
  note run = summaries_aligned_with_records [where g = sample_generate and idx = "Some 1"
      and test = sample_test and v = Peft and tok = words_tok and stem = id and us = True
      and i = 1 and h = "''A leaves B.''"]
  from run h have err: "snd (quantitative_evaluation sample_generate (Some 1) sample_test) = None"
    and lists: "summaries_of Peft ?st
       = map (\<lambda>r. sample_generate Peft (quantitative_prompt (dialogue r))) (take 10 sample_test)"
    by blast+
  from lists outputs have peft: "summaries_of Peft ?st = [''P:A: Hi. '', ''P:A: Bye.'']"
    by simp
  then have ne: "summaries_of Peft ?st \<noteq> []"
    by simp
  have sc: "score words_tok id True (summaries_of Peft ?st) (human_baseline_summaries_of sample_test)
       = rouge_compute words_tok id True [''P:A: Hi. '', ''P:A: Bye.'']
           [''A greets B.'', ''A leaves B.'']"
    by (simp add: peft score_def human_baseline_summaries_of_def refs)
  from run ne have "score words_tok id True (summaries_of Peft ?st)
         (human_baseline_summaries_of sample_test)
       = Inr [(''rouge1'', mean (map (\<lambda>r. ngram_overlap 1
                   (normalise words_tok id True (sample_generate Peft (quantitative_prompt (dialogue r))))
                   (normalise words_tok id True (summary r))) (take 10 sample_test))),
               (''rouge2'', mean (map (\<lambda>r. ngram_overlap 2
                   (normalise words_tok id True (sample_generate Peft (quantitative_prompt (dialogue r))))
                   (normalise words_tok id True (summary r))) (take 10 sample_test))),
               (''rougeL'', mean (map (\<lambda>r. lcs_overlap
                   (normalise words_tok id True (sample_generate Peft (quantitative_prompt (dialogue r))))
                   (normalise words_tok id True (summary r))) (take 10 sample_test))),
               (''rougeLsum'', mean (map (\<lambda>r. summary_lcs_overlap
                   (normalise words_tok id True (sample_generate Peft (quantitative_prompt (dialogue r))))
                   (normalise words_tok id True (summary r))) (take 10 sample_test)))]"
    by blast
  then have zero: "score words_tok id True (summaries_of Peft ?st)
         (human_baseline_summaries_of sample_test)
       = Inr [(''rouge1'', 0), (''rouge2'', 0), (''rougeL'', 0), (''rougeLsum'', 0)]"
    by (simp add: sample_test_def sample_generate_def quantitative_prompt_def normalise_def
          words_tok_def ngram_overlap_def lcs_overlap_def summary_lcs_overlap_def fmeasure_def
          mean_def)
  have unbound: "summaries_of Peft (fst (quantitative_evaluation sample_generate None sample_test)) = []"
    using summaries_aligned_with_records [where g = sample_generate and idx = None
      and test = sample_test and v = Peft]
    by (simp add: quantitative_evaluation_def dialogues_of_def sample_test_def loop_body_def
          no_summaries_def)
  from h err peft ne sc zero unbound show ?thesis
    by blast
qed

text \<open>
  C10. The loop body reads \<^verbatim>\<open>human_baseline_summaries[idx]\<close>. With \<^verbatim>\<open>idx\<close> unbound
  and a test split that is not empty, the cell stops in its first iteration with
  \<open>NameError\<close>: no call to a model has been made and the three lists are still empty.
  When \<^verbatim>\<open>idx\<close> is bound to an index in range, the value read reaches nothing but the
  variable it is assigned to: two runs that read different values end in states that
  differ in that variable at most.
\<close>

theorem idx_unbound_name_error:
  "(test \<noteq> [] \<longrightarrow>
      quantitative_evaluation g None test = (no_summaries, Some NameError))
   \<and> (py_index hs i = Inr h \<and> py_index hs' i' = Inr h' \<longrightarrow>
        (fst (for_loop g hs (Some i) st ds))\<lparr>human_baseline_text_output := x\<rparr>
          = (fst (for_loop g hs' (Some i') st ds))\<lparr>human_baseline_text_output := x\<rparr>
        \<and> snd (for_loop g hs (Some i) st ds) = None)"
proof -
  have unbound: "test \<noteq> [] \<longrightarrow>
      quantitative_evaluation g None test = (no_summaries, Some NameError)"
  proof
    assume "test \<noteq> []"
    then obtain d ds where "dialogues_of test = d # ds"
      by (cases test) (simp_all add: dialogues_of_def)
    then show "quantitative_evaluation g None test = (no_summaries, Some NameError)"
      by (simp add: quantitative_evaluation_def loop_body_def)
  qed
  have unused: "py_index hs i = Inr h \<and> py_index hs' i' = Inr h' \<longrightarrow>
        (fst (for_loop g hs (Some i) st ds))\<lparr>human_baseline_text_output := x\<rparr>
          = (fst (for_loop g hs' (Some i') st ds))\<lparr>human_baseline_text_output := x\<rparr>
        \<and> snd (for_loop g hs (Some i) st ds) = None"
  proof
    assume "py_index hs i = Inr h \<and> py_index hs' i' = Inr h'"
    then have a: "py_index hs i = Inr h" and b: "py_index hs' i' = Inr h'"
      by simp_all
    show "(fst (for_loop g hs (Some i) st ds))\<lparr>human_baseline_text_output := x\<rparr>
          = (fst (for_loop g hs' (Some i') st ds))\<lparr>human_baseline_text_output := x\<rparr>
        \<and> snd (for_loop g hs (Some i) st ds) = None"
      by (simp add: for_loop_bound [OF a] for_loop_bound [OF b])
  qed
  from unbound unused show ?thesis by blast
qed

theorem idx_unbound_name_error_witness:
  "sample_test \<noteq> []
   \<and> quantitative_evaluation sample_generate None sample_test = (no_summaries, Some NameError)
   \<and> generate_calls (fst (quantitative_evaluation sample_generate None sample_test)) = []
   \<and> py_index [''A greets B.'', ''A leaves B.''] 0 = Inr ''A greets B.''
   \<and> py_index [''A greets B.'', ''A leaves B.''] (- 1) = Inr ''A leaves B.''
   \<and> (fst (for_loop sample_generate [''A greets B.'', ''A leaves B.''] (Some 0) no_summaries
          [''A: Hi. B: Hello.'']))\<lparr>human_baseline_text_output := None\<rparr>
       = (fst (for_loop sample_generate [''A greets B.'', ''A leaves B.''] (Some (- 1)) no_summaries
          [''A: Hi. B: Hello.'']))\<lparr>human_baseline_text_output := None\<rparr>"
proof -
  have ne: "sample_test \<noteq> []"
    by (simp add: sample_test_def)
  have r0: "py_index [''A greets B.'', ''A leaves B.''] 0 = Inr ''A greets B.''"
    by (simp add: py_index_def)
  have r1: "py_index [''A greets B.'', ''A leaves B.''] (- 1) = Inr ''A leaves B.''"
    by (simp add: py_index_def)
  from ne r0 r1
    idx_unbound_name_error [where test = sample_test and g = sample_generate
      and hs = "[''A greets B.'', ''A leaves B.'']" and i = 0 and h = "''A greets B.''"
      and hs' = "[''A greets B.'', ''A leaves B.'']" and i' = "- 1" and h' = "''A leaves B.''"
      and st = no_summaries and ds = "[''A: Hi. B: Hello.'']" and x = None]
  show ?thesis by (simp add: no_summaries_def)
qed


end
